theory Spec2Isabelle
  imports Complex_Main
begin

section \<open>Values of a parsed request body\<close>

text \<open>
  The handlers of the server read \<^verbatim>\<open>req.body\<close>, the result of parsing a JSON text. A value is
  one of JavaScript's JSON-expressible values, together with \<^verbatim>\<open>undefined\<close>, which is what
  reading an absent property gives. An object is the list of its own properties, each
  name once.
\<close>

datatype js =
    JUndefined
  | JNull
  | JBool bool
  | JNumber rat
  | JString string
  | JArray "js list"
  | JObject "(string \<times> js) list"

text \<open>JavaScript's \<^verbatim>\<open>ToBoolean\<close>: what \<^verbatim>\<open>if (v)\<close> and \<^verbatim>\<open>!v\<close> test.\<close>

fun truthy :: "js \<Rightarrow> bool" where
  "truthy JUndefined = False"
| "truthy JNull = False"
| "truthy (JBool b) = b"
| "truthy (JNumber n) = (n \<noteq> 0)"
| "truthy (JString s) = (s \<noteq> [])"
| "truthy (JArray xs) = True"
| "truthy (JObject kvs) = True"

text \<open>
  Property access \<^verbatim>\<open>v.k\<close> on a value that is neither \<^verbatim>\<open>null\<close> nor \<^verbatim>\<open>undefined\<close>, for the
  property names the handlers read (\<^verbatim>\<open>items\<close>, \<^verbatim>\<open>token\<close>, \<^verbatim>\<open>type\<close>, \<^verbatim>\<open>reason\<close>, ...): none
  of them is a property of a prototype, so only an object's own property is found.
\<close>

fun get_prop :: "js \<Rightarrow> string \<Rightarrow> js" where
  "get_prop (JObject kvs) k = (case map_of kvs k of Some v \<Rightarrow> v | None \<Rightarrow> JUndefined)"
| "get_prop v k = JUndefined"

text \<open>
  Destructuring \<^verbatim>\<open>const { a, b } = req.body\<close> throws a TypeError when the body is
  \<^verbatim>\<open>null\<close> or \<^verbatim>\<open>undefined\<close>; every handler catches it and answers 500.
\<close>

fun destructurable :: "js \<Rightarrow> bool" where
  "destructurable JUndefined = False"
| "destructurable JNull = False"
| "destructurable v = True"

section \<open>What a request draws from its environment\<close>

text \<open>
  \<^verbatim>\<open>uuidv4()\<close>, \<^verbatim>\<open>Math.random()\<close> and the clock are inputs of a request: \<open>uuid e k\<close> is
  the result of the \<open>k\<close>-th call of \<^verbatim>\<open>uuidv4()\<close> while the request is handled,
  \<open>random_draw e k\<close> the \<open>k\<close>-th value of \<^verbatim>\<open>Math.floor(Math.random() * 5000)\<close>, and
  \<open>clock e k\<close> the \<open>k\<close>-th reading of the clock, in milliseconds (the source renders it
  with \<^verbatim>\<open>toISOString\<close>).
\<close>

record entropy =
  uuid :: "nat \<Rightarrow> string"
  random_draw :: "nat \<Rightarrow> int"
  clock :: "nat \<Rightarrow> nat"

section \<open>Data model\<close>

record line_item =
  li_id :: string
  li_item :: js
  base_amount :: int
  discount :: int
  li_subtotal :: int
  li_tax :: int
  li_total :: int

record fulfillment_option =
  opt_type :: string
  opt_id :: string
  title :: string
  subtitle :: string
  carrier :: string
  earliest_delivery_time :: nat
  latest_delivery_time :: nat
  opt_subtotal :: int
  opt_tax :: int
  opt_total :: int

record total_entry =
  entry_type :: string
  display_text :: string
  amount :: int

datatype session_status = Ready_for_payment | Completed | Canceled

fun status_str :: "session_status \<Rightarrow> string" where
  "status_str Ready_for_payment = ''ready_for_payment''"
| "status_str Completed = ''completed''"
| "status_str Canceled = ''canceled''"

record notice =
  notice_type :: string
  content_type :: string
  content :: string

record order_rec =
  order_id :: string
  checkout_session_id :: string
  permalink_url :: string
  order_status :: string
  order_created_at :: nat

text \<open>
  A session object. \<open>buyer\<close> and \<open>session_order\<close> are \<open>None\<close> while the object has no
  such property (they are assigned by Complete only).
\<close>

record session =
  session_id :: string
  payment_provider :: "string \<times> string list"
  status :: session_status
  currency :: string
  line_items :: "line_item list"
  fulfillment_address :: js
  fulfillment_option_id :: js
  totals :: "total_entry list"
  fulfillment_options :: "fulfillment_option list"
  messages :: "notice list"
  links :: "(string \<times> string) list"
  created_at :: nat
  updated_at :: nat
  buyer :: "js option"
  session_order :: "order_rec option"

record token =
  token_id :: string
  created :: nat
  payment_method :: js
  allowance :: js
  billing_address :: js
  risk_signals :: js
  metadata :: js

text \<open>The body of the 201 answer of the delegate-payment endpoint.\<close>

record token_response =
  resp_id :: string
  resp_created :: nat
  resp_metadata :: js

text \<open>An error answer: the HTTP status and the JSON body \<^verbatim>\<open>{type, code, message, param}\<close>.\<close>

record err =
  http_status :: nat
  err_type :: string
  err_code :: string
  err_message :: string
  param :: "string option"

text \<open>The three in-memory maps of the server.\<close>

record state =
  checkoutSessions :: "string \<rightharpoonup> session"
  orders :: "string \<rightharpoonup> order_rec"
  paymentTokens :: "string \<rightharpoonup> token"

definition init_state :: state where
  "init_state = \<lparr>checkoutSessions = Map.empty, orders = Map.empty, paymentTokens = Map.empty\<rparr>"

section \<open>Helper functions of the server\<close>

text \<open>
  \<^verbatim>\<open>Math.floor(x * 0.1)\<close> on an amount. The source computes the product in double precision;
  for the integer amounts a request can produce (sums of base amounts, far below \<open>2^40\<close>)
  the floor of the rounded product is the integer quotient by ten.
\<close>

definition floor_tenth :: "int \<Rightarrow> int" where
  "floor_tenth x = x div 10"

text \<open>
  \<^verbatim>\<open>createLineItems(items)\<close>: \<open>k\<close> is the number of \<^verbatim>\<open>uuidv4()\<close> calls the request has
  made before.
\<close>

definition createLineItems :: "entropy \<Rightarrow> nat \<Rightarrow> js list \<Rightarrow> line_item list" where
  "createLineItems e k items =
     map (\<lambda>(i, item).
           \<lparr>li_id = ''line_item_'' @ take 8 (uuid e (k + i)),
            li_item = item,
            base_amount = random_draw e i + 1000,
            discount = 0,
            li_subtotal = 0,
            li_tax = 0,
            li_total = 0\<rparr>)
         (enumerate 0 items)"

text \<open>The body of the \<^verbatim>\<open>lineItems.forEach\<close> loop of Create and Update.\<close>

definition price_item :: "line_item \<Rightarrow> line_item" where
  "price_item item =
     (let item1 = item\<lparr>li_subtotal := base_amount item\<rparr>;
          item2 = item1\<lparr>li_tax := floor_tenth (li_subtotal item1)\<rparr>
      in item2\<lparr>li_total := li_subtotal item2 + li_tax item2\<rparr>)"

text \<open>
  \<^verbatim>\<open>createFulfillmentOptions(address)\<close>: \<open>k\<close> and \<open>c\<close> count the \<^verbatim>\<open>uuidv4()\<close> calls and
  the clock readings made before. The address is not used.
\<close>

definition createFulfillmentOptions :: "entropy \<Rightarrow> nat \<Rightarrow> nat \<Rightarrow> js \<Rightarrow> fulfillment_option list" where
  "createFulfillmentOptions e k c address =
     [\<lparr>opt_type = ''shipping'',
       opt_id = ''fulfillment_option_'' @ take 8 (uuid e k),
       title = ''Standard'',
       subtitle = ''Arrives in 4-5 days'',
       carrier = ''USPS'',
       earliest_delivery_time = clock e c + 4 * 24 * 60 * 60 * 1000,
       latest_delivery_time = clock e (c + 1) + 5 * 24 * 60 * 60 * 1000,
       opt_subtotal = 100,
       opt_tax = 0,
       opt_total = 100\<rparr>,
      \<lparr>opt_type = ''shipping'',
       opt_id = ''fulfillment_option_'' @ take 8 (uuid e (k + 1)),
       title = ''Express'',
       subtitle = ''Arrives in 1-2 days'',
       carrier = ''USPS'',
       earliest_delivery_time = clock e (c + 2) + 1 * 24 * 60 * 60 * 1000,
       latest_delivery_time = clock e (c + 3) + 2 * 24 * 60 * 60 * 1000,
       opt_subtotal = 500,
       opt_tax = 0,
       opt_total = 500\<rparr>]"

text \<open>
  \<^verbatim>\<open>calculateTotals(lineItems, fulfillmentOption)\<close>; the option is \<open>None\<close> when the caller
  passes \<^verbatim>\<open>undefined\<close> (an option object is always truthy).
\<close>

definition calculateTotals :: "line_item list \<Rightarrow> fulfillment_option option \<Rightarrow> total_entry list" where
  "calculateTotals lineItems fulfillmentOption =
     (let itemsBaseAmount = foldl (\<lambda>sum item. sum + base_amount item) 0 lineItems;
          subtotal = itemsBaseAmount;
          tax = floor_tenth subtotal;
          fulfillment = (case fulfillmentOption of Some opt \<Rightarrow> opt_total opt | None \<Rightarrow> 0);
          total = subtotal + tax + fulfillment
      in [\<lparr>entry_type = ''items_base_amount'', display_text = ''Item(s) total'', amount = itemsBaseAmount\<rparr>,
          \<lparr>entry_type = ''subtotal'', display_text = ''Subtotal'', amount = subtotal\<rparr>,
          \<lparr>entry_type = ''tax'', display_text = ''Tax'', amount = tax\<rparr>,
          \<lparr>entry_type = ''fulfillment'', display_text = ''Fulfillment'', amount = fulfillment\<rparr>,
          \<lparr>entry_type = ''total'', display_text = ''Total'', amount = total\<rparr>])"

text \<open>
  \<^verbatim>\<open>options.find(opt => opt.id === v)\<close>: strict equality, so only a string equal to an
  option's id matches; the first match is returned, \<open>None\<close> stands for \<^verbatim>\<open>undefined\<close>.
\<close>

definition find_option :: "fulfillment_option list \<Rightarrow> js \<Rightarrow> fulfillment_option option" where
  "find_option opts v = List.find (\<lambda>opt. JString (opt_id opt) = v) opts"

section \<open>Error answers\<close>

definition internal_error :: err where
  "internal_error =
     \<lparr>http_status = 500, err_type = ''processing_error'', err_code = ''internal_error'',
      err_message = ''Internal server error'', param = None\<rparr>"

definition not_found :: err where
  "not_found =
     \<lparr>http_status = 404, err_type = ''invalid_request'', err_code = ''not_found'',
      err_message = ''Checkout session not found'', param = Some ''$.id''\<rparr>"

text \<open>
  The answer to an operation that the session's status forbids: \<open>hs\<close> is the HTTP status
  the handler sends and \<open>verb\<close> the verb of its message.
\<close>

definition invalid_status :: "nat \<Rightarrow> string \<Rightarrow> session_status \<Rightarrow> err" where
  "invalid_status hs verb st =
     \<lparr>http_status = hs, err_type = ''invalid_request'', err_code = ''invalid_status'',
      err_message = ''Cannot '' @ verb @ '' session with status: '' @ status_str st,
      param = Some ''$.status''\<rparr>"

definition invalid_items :: err where
  "invalid_items =
     \<lparr>http_status = 400, err_type = ''invalid_request'', err_code = ''invalid'',
      err_message = ''Items array is required and must not be empty'', param = Some ''$.items''\<rparr>"

definition invalid_option :: err where
  "invalid_option =
     \<lparr>http_status = 400, err_type = ''invalid_request'', err_code = ''invalid'',
      err_message = ''Invalid fulfillment option ID'', param = Some ''$.fulfillment_option_id''\<rparr>"

definition invalid_payment_data :: err where
  "invalid_payment_data =
     \<lparr>http_status = 400, err_type = ''invalid_request'', err_code = ''invalid'',
      err_message = ''Payment data with token is required'', param = Some ''$.payment_data''\<rparr>"

definition invalid_card :: err where
  "invalid_card =
     \<lparr>http_status = 400, err_type = ''invalid_request'', err_code = ''invalid_card'',
      err_message = ''Payment method type must be card'', param = Some ''$.payment_method.type''\<rparr>"

definition invalid_allowance :: err where
  "invalid_allowance =
     \<lparr>http_status = 400, err_type = ''invalid_request'', err_code = ''invalid_allowance'',
      err_message = ''Allowance reason must be one_time'', param = Some ''$.allowance.reason''\<rparr>"

definition invalid_risk_signals :: err where
  "invalid_risk_signals =
     \<lparr>http_status = 400, err_type = ''invalid_request'', err_code = ''invalid'',
      err_message = ''At least one risk signal is required'', param = Some ''$.risk_signals''\<rparr>"

section \<open>Checkout session endpoints\<close>

text \<open>
  Every handler maps the state of the three maps to the new state and the answer:
  \<open>Inl\<close> an error answer, \<open>Inr\<close> the HTTP status and body of a success. The header checks of
  the two middlewares run before a handler and touch no map; they are not modelled.
\<close>

text \<open>
  \<^verbatim>\<open>POST /checkout_sessions\<close>. The guard
  \<^verbatim>\<open>!items || !Array.isArray(items) || items.length === 0\<close> is evaluated left to right.
  \<^verbatim>\<open>fulfillmentOptions[0]\<close> of an empty array would be \<^verbatim>\<open>undefined\<close>, and reading its
  \<^verbatim>\<open>id\<close> a TypeError.
\<close>

definition create :: "entropy \<Rightarrow> js \<Rightarrow> state \<Rightarrow> state \<times> (err + nat \<times> session)" where
  "create e body st =
     (if destructurable body then
        (let items = get_prop body ''items'';
             fulfillment_address = get_prop body ''fulfillment_address''
         in if truthy items then
              (case items of
                 JArray its \<Rightarrow>
                   (if length its = 0 then (st, Inl invalid_items)
                    else
                      (let sessionId = ''checkout_session_'' @ take 12 (uuid e 0);
                           lineItems = map price_item (createLineItems e 1 its);
                           fulfillmentOptions =
                             createFulfillmentOptions e (1 + length its) 0 fulfillment_address
                       in case fulfillmentOptions of
                            [] \<Rightarrow> (st, Inl internal_error)
                          | selectedOption # others \<Rightarrow>
                              (let totals = calculateTotals lineItems (Some selectedOption);
                                   session =
                                     \<lparr>session_id = sessionId,
                                      payment_provider = (''stripe'', [''card'']),
                                      status = Ready_for_payment,
                                      currency = ''usd'',
                                      line_items = lineItems,
                                      fulfillment_address =
                                        (if truthy fulfillment_address then fulfillment_address
                                         else JNull),
                                      fulfillment_option_id = JString (opt_id selectedOption),
                                      totals = totals,
                                      fulfillment_options = fulfillmentOptions,
                                      messages = [],
                                      links =
                                        [(''terms_of_use'',
                                          ''https://www.testshop.com/legal/terms-of-use'')],
                                      created_at = clock e 4,
                                      updated_at = clock e 5,
                                      buyer = None,
                                      session_order = None\<rparr>
                               in (st\<lparr>checkoutSessions := (checkoutSessions st)(sessionId \<mapsto> session)\<rparr>,
                                   Inr (201, session)))))
               | other \<Rightarrow> (st, Inl invalid_items))
            else (st, Inl invalid_items))
      else (st, Inl internal_error))"

text \<open>
  The \<^verbatim>\<open>if (items) { ... }\<close> block of Update: \<open>None\<close> is the TypeError of calling
  \<^verbatim>\<open>items.map\<close> on a truthy value that is not an array, raised before the assignment.
\<close>

definition replace_items :: "entropy \<Rightarrow> js \<Rightarrow> session \<Rightarrow> session option" where
  "replace_items e items session =
     (if truthy items then
        (case items of
           JArray its \<Rightarrow> Some (session\<lparr>line_items := map price_item (createLineItems e 0 its)\<rparr>)
         | other \<Rightarrow> None)
      else Some session)"

text \<open>The tail of Update, from the comment \<^verbatim>\<open>// Recalculate totals\<close> on.\<close>

definition recalculate :: "entropy \<Rightarrow> session \<Rightarrow> session \<times> (err + nat \<times> session)" where
  "recalculate e session =
     (let selectedOption = find_option (fulfillment_options session) (fulfillment_option_id session);
          session1 = session\<lparr>totals := calculateTotals (line_items session) selectedOption\<rparr>;
          session2 = session1\<lparr>updated_at := clock e 0\<rparr>
      in (session2, Inr (200, session2)))"

text \<open>
  What Update does to the session object once the session is found and not terminal.
  \<^verbatim>\<open>session\<close> is the object held by the map, not a copy: the first component of the result
  is the content of that object when the handler returns, on an error answer as well.
\<close>

definition update_fields :: "entropy \<Rightarrow> js \<Rightarrow> session \<Rightarrow> session \<times> (err + nat \<times> session)" where
  "update_fields e body session =
     (if destructurable body then
        (let items = get_prop body ''items'';
             fulfillment_address = get_prop body ''fulfillment_address'';
             fulfillment_option_id = get_prop body ''fulfillment_option_id''
         in case replace_items e items session of
              None \<Rightarrow> (session, Inl internal_error)
            | Some session1 \<Rightarrow>
                (let session2 =
                       (if truthy fulfillment_address
                        then session1\<lparr>fulfillment_address := fulfillment_address\<rparr>
                        else session1)
                 in if truthy fulfillment_option_id then
                      (case find_option (fulfillment_options session2) fulfillment_option_id of
                         None \<Rightarrow> (session2, Inl invalid_option)
                       | Some option \<Rightarrow>
                           recalculate e (session2\<lparr>fulfillment_option_id := fulfillment_option_id\<rparr>))
                    else recalculate e session2))
      else (session, Inl internal_error))"

text \<open>
  \<^verbatim>\<open>POST /checkout_sessions/:id\<close>. The assignments to \<^verbatim>\<open>session.line_items\<close> and the other
  fields write into the object stored under \<open>sessionId\<close>, so the map holds the object as
  \<open>update_fields\<close> leaves it, whatever the answer is; the final
  \<^verbatim>\<open>checkoutSessions.set(sessionId, session)\<close> stores the same object again.
\<close>

definition update :: "entropy \<Rightarrow> string \<Rightarrow> js \<Rightarrow> state \<Rightarrow> state \<times> (err + nat \<times> session)" where
  "update e sessionId body st =
     (case checkoutSessions st sessionId of
        None \<Rightarrow> (st, Inl not_found)
      | Some session \<Rightarrow>
          (if status session = Completed \<or> status session = Canceled
           then (st, Inl (invalid_status 400 ''update'' (status session)))
           else
             (let (session', answer) = update_fields e body session
              in (st\<lparr>checkoutSessions := (checkoutSessions st)(sessionId \<mapsto> session')\<rparr>, answer))))"

text \<open>\<^verbatim>\<open>GET /checkout_sessions/:id\<close>.\<close>

definition retrieve :: "string \<Rightarrow> state \<Rightarrow> state \<times> (err + nat \<times> session)" where
  "retrieve sessionId st =
     (case checkoutSessions st sessionId of
        None \<Rightarrow> (st, Inl not_found)
      | Some session \<Rightarrow> (st, Inr (200, session)))"

text \<open>\<^verbatim>\<open>POST /checkout_sessions/:id/complete\<close>.\<close>

definition complete_session :: "entropy \<Rightarrow> string \<Rightarrow> js \<Rightarrow> state \<Rightarrow> state \<times> (err + nat \<times> session)" where
  "complete_session e sessionId body st =
     (case checkoutSessions st sessionId of
        None \<Rightarrow> (st, Inl not_found)
      | Some session \<Rightarrow>
          (if status session = Ready_for_payment then
             (if destructurable body then
                (let buyer = get_prop body ''buyer'';
                     payment_data = get_prop body ''payment_data''
                 in if truthy payment_data then
                      (if truthy (get_prop payment_data ''token'') then
                         (let orderId = ''ord_'' @ take 12 (uuid e 0);
                              order =
                                \<lparr>order_id = orderId,
                                 checkout_session_id = sessionId,
                                 permalink_url = ''https://www.testshop.com/orders/'' @ orderId,
                                 order_status = ''created'',
                                 order_created_at = clock e 0\<rparr>;
                              session' =
                                session\<lparr>status := Completed,
                                        buyer := Some buyer,
                                        session_order := Some order,
                                        updated_at := clock e 1\<rparr>
                          in (st\<lparr>orders := (orders st)(orderId \<mapsto> order),
                                 checkoutSessions := (checkoutSessions st)(sessionId \<mapsto> session')\<rparr>,
                              Inr (200, session')))
                       else (st, Inl invalid_payment_data))
                    else (st, Inl invalid_payment_data))
              else (st, Inl internal_error))
           else (st, Inl (invalid_status 400 ''complete'' (status session)))))"

text \<open>\<^verbatim>\<open>POST /checkout_sessions/:id/cancel\<close>. The handler does not read the body.\<close>

definition cancel :: "entropy \<Rightarrow> string \<Rightarrow> state \<Rightarrow> state \<times> (err + nat \<times> session)" where
  "cancel e sessionId st =
     (case checkoutSessions st sessionId of
        None \<Rightarrow> (st, Inl not_found)
      | Some session \<Rightarrow>
          (if status session = Completed \<or> status session = Canceled
           then (st, Inl (invalid_status 405 ''cancel'' (status session)))
           else
             (let session' =
                    session\<lparr>status := Canceled,
                            messages :=
                              [\<lparr>notice_type = ''info'', content_type = ''plain'',
                                content = ''Checkout session has been canceled.''\<rparr>],
                            updated_at := clock e 0\<rparr>
              in (st\<lparr>checkoutSessions := (checkoutSessions st)(sessionId \<mapsto> session')\<rparr>,
                  Inr (200, session')))))"

section \<open>Delegate payment endpoint\<close>

text \<open>
  \<^verbatim>\<open>POST /agentic_commerce/delegate_payment\<close>. The three guards are nested in the order
  of the source; \<^verbatim>\<open>!v || v.p !== 'x'\<close> reads \<^verbatim>\<open>v.p\<close> only when \<open>v\<close> is truthy.
\<close>

definition delegate_payment :: "entropy \<Rightarrow> js \<Rightarrow> state \<Rightarrow> state \<times> (err + nat \<times> token_response)" where
  "delegate_payment e body st =
     (if destructurable body then
        (let payment_method = get_prop body ''payment_method'';
             allowance = get_prop body ''allowance'';
             billing_address = get_prop body ''billing_address'';
             risk_signals = get_prop body ''risk_signals'';
             metadata = get_prop body ''metadata''
         in if truthy payment_method \<and> get_prop payment_method ''type'' = JString ''card'' then
              (if truthy allowance \<and> get_prop allowance ''reason'' = JString ''one_time'' then
                 (if truthy risk_signals then
                    (case risk_signals of
                       JArray signals \<Rightarrow>
                         (if length signals = 0 then (st, Inl invalid_risk_signals)
                          else
                            (let tokenId = ''vt_'' @ take 12 (uuid e 0);
                                 token =
                                   \<lparr>token_id = tokenId,
                                    created = clock e 0,
                                    payment_method = payment_method,
                                    allowance = allowance,
                                    billing_address = billing_address,
                                    risk_signals = risk_signals,
                                    metadata = (if truthy metadata then metadata else JObject [])\<rparr>
                             in (st\<lparr>paymentTokens := (paymentTokens st)(tokenId \<mapsto> token)\<rparr>,
                                 Inr (201,
                                      \<lparr>resp_id = tokenId,
                                       resp_created = created token,
                                       resp_metadata =
                                         (if truthy metadata then metadata else JObject [])\<rparr>))))
                     | other \<Rightarrow> (st, Inl invalid_risk_signals))
                  else (st, Inl invalid_risk_signals))
               else (st, Inl invalid_allowance))
            else (st, Inl invalid_card))
      else (st, Inl internal_error))"

section \<open>Runs of the server\<close>

text \<open>A request: the endpoint, what it draws from the environment, and its inputs.\<close>

datatype request =
    Create entropy js
  | Update entropy string js
  | Retrieve string
  | Complete entropy string js
  | Cancel entropy string
  | Delegate entropy js

text \<open>The maps after one request, and after a list of requests served one after the other.\<close>

fun handle :: "request \<Rightarrow> state \<Rightarrow> state" where
  "handle (Create e body) st = fst (create e body st)"
| "handle (Update e sessionId body) st = fst (update e sessionId body st)"
| "handle (Retrieve sessionId) st = fst (retrieve sessionId st)"
| "handle (Complete e sessionId body) st = fst (complete_session e sessionId body st)"
| "handle (Cancel e sessionId) st = fst (cancel e sessionId st)"
| "handle (Delegate e body) st = fst (delegate_payment e body st)"

fun run :: "request list \<Rightarrow> state \<Rightarrow> state" where
  "run [] st = st"
| "run (r # rs) st = run rs (handle r st)"

text \<open>The session id a Create request draws.\<close>

fun drawn_session_id :: "request \<Rightarrow> string option" where
  "drawn_session_id (Create e body) = Some (''checkout_session_'' @ take 12 (uuid e 0))"
| "drawn_session_id r = None"

text \<open>
  \<^verbatim>\<open>uuidv4()\<close> is relied on for unique ids. A run has fresh session ids when no Create
  draws the id of a session that the map holds at that moment.
\<close>

fun fresh_session_ids :: "request list \<Rightarrow> state \<Rightarrow> bool" where
  "fresh_session_ids [] st = True"
| "fresh_session_ids (r # rs) st =
     ((case drawn_session_id r of
         None \<Rightarrow> True
       | Some sessionId \<Rightarrow> checkoutSessions st sessionId = None)
      \<and> fresh_session_ids rs (handle r st))"

section \<open>A sample run\<close>

text \<open>Concrete inputs on which the theorems below are evaluated.\<close>

definition env_a :: entropy where
  "env_a =
     \<lparr>uuid = (\<lambda>k. if k = 0 then ''1b9d6bcd-bbfd-4b2d-9b5d-ab8dfbbd4bed''
                  else if k = 1 then ''6ec0bd7f-11c0-43da-975e-2a8ad9ebae0b''
                  else if k = 2 then ''3d594650-3436-4a53-8e6c-3f1c2b7d9a10''
                  else ''9c5b94b1-35ad-49bb-b118-8e8fc24abf80''),
      random_draw = (\<lambda>k. 1500),
      clock = (\<lambda>k. 1700000000000 + k)\<rparr>"

definition env_b :: entropy where
  "env_b =
     \<lparr>uuid = (\<lambda>k. if k = 0 then ''f47ac10b-58cc-4372-a567-0e02b2c3d479''
                  else ''7c9e6679-7425-40de-944b-e07fc1f90ae7''),
      random_draw = (\<lambda>k. 3000),
      clock = (\<lambda>k. 1700000060000 + k)\<rparr>"

definition env_c :: entropy where
  "env_c =
     \<lparr>uuid = (\<lambda>k. if k = 0 then ''0e3a5b7c-9d1f-4a2b-8c3d-4e5f6a7b8c9d''
                  else if k = 1 then ''a1b2c3d4-e5f6-4789-8abc-def012345678''
                  else if k = 2 then ''b2c3d4e5-f6a7-4890-9bcd-ef0123456789''
                  else ''c3d4e5f6-a7b8-4901-8cde-f01234567890''),
      random_draw = (\<lambda>k. 2000),
      clock = (\<lambda>k. 1700000120000 + k)\<rparr>"

definition env_d :: entropy where
  "env_d =
     \<lparr>uuid = (\<lambda>k. ''d4e5f6a7-b8c9-4012-9def-012345678901''),
      random_draw = (\<lambda>k. 0),
      clock = (\<lambda>k. 1700000180000 + k)\<rparr>"

definition create_body :: js where
  "create_body =
     JObject [(''items'', JArray [JObject [(''id'', JString ''item_123''), (''quantity'', JNumber 1)]])]"

text \<open>The session id that Create draws from \<open>env_a\<close>.\<close>

definition sid_a :: string where
  "sid_a = ''checkout_session_1b9d6bcd-bbf''"

text \<open>The session id that Create draws from \<open>env_c\<close>.\<close>

definition sid_c :: string where
  "sid_c = ''checkout_session_0e3a5b7c-9d1''"

text \<open>The server after one Create on the empty maps.\<close>

definition state_a :: state where
  "state_a = fst (create env_a create_body init_state)"

text \<open>An Update that replaces the items and names an option id the session does not have.\<close>

definition bogus_option_body :: js where
  "bogus_option_body =
     JObject [(''items'', JArray [JObject [(''id'', JString ''item_456''), (''quantity'', JNumber 2)]]),
              (''fulfillment_option_id'', JString ''bogus'')]"

text \<open>A Complete body whose token no Delegate call has minted.\<close>

definition payment_body :: js where
  "payment_body =
     JObject [(''buyer'', JObject [(''email'', JString ''jane.smith@example.com'')]),
              (''payment_data'', JObject [(''token'', JString ''vt_x''), (''provider'', JString ''stripe'')])]"

text \<open>A Delegate body that violates the card-type and the allowance-reason checks at once.\<close>

definition paypal_recurring_body :: js where
  "paypal_recurring_body =
     JObject [(''payment_method'', JObject [(''type'', JString ''paypal'')]),
              (''allowance'', JObject [(''reason'', JString ''recurring'')]),
              (''risk_signals'', JArray [JObject [(''type'', JString ''card_testing'')]])]"

text \<open>A Delegate body that passes the three checks.\<close>

definition card_body :: js where
  "card_body =
     JObject [(''payment_method'', JObject [(''type'', JString ''card''), (''number'', JString ''4242424242424242'')]),
              (''allowance'', JObject [(''reason'', JString ''one_time'')]),
              (''risk_signals'', JArray [JObject [(''type'', JString ''card_testing'')]]),
              (''metadata'', JObject [(''source'', JString ''api_test'')])]"

text \<open>An Update that selects the express option of the sample session.\<close>

definition express_body :: js where
  "express_body = JObject [(''fulfillment_option_id'', JString ''fulfillment_option_9c5b94b1'')]"

text \<open>A body whose items are the empty array.\<close>

definition empty_items_body :: js where
  "empty_items_body = JObject [(''items'', JArray [])]"

text \<open>The sample session after a Complete.\<close>

definition state_completed :: state where
  "state_completed = fst (complete_session env_b sid_a payment_body state_a)"

text \<open>Whether a value is an array with at least one element.\<close>

fun is_nonempty_array :: "js \<Rightarrow> bool" where
  "is_nonempty_array (JArray (x # xs)) = True"
| "is_nonempty_array v = False"

text \<open>The server after two Creates: it holds two sessions and no token.\<close>

definition state_two :: state where
  "state_two = run [Create env_a create_body, Create env_c create_body] init_state"

text \<open>A Delegate body with a card and an allowance that is not one-time.\<close>

definition recurring_body :: js where
  "recurring_body =
     JObject [(''payment_method'', JObject [(''type'', JString ''card'')]),
              (''allowance'', JObject [(''reason'', JString ''recurring'')]),
              (''risk_signals'', JArray [JObject [(''type'', JString ''card_testing'')]])]"

text \<open>A Delegate body with a card, a one-time allowance and no risk signal.\<close>

definition no_risk_body :: js where
  "no_risk_body =
     JObject [(''payment_method'', JObject [(''type'', JString ''card'')]),
              (''allowance'', JObject [(''reason'', JString ''one_time'')]),
              (''risk_signals'', JArray [])]"

text \<open>A Delegate body with a card, a one-time allowance and no \<^verbatim>\<open>risk_signals\<close> property.\<close>

definition absent_risk_body :: js where
  "absent_risk_body =
     JObject [(''payment_method'', JObject [(''type'', JString ''card'')]),
              (''allowance'', JObject [(''reason'', JString ''one_time'')])]"

section \<open>Invariants and sample runs\<close>

text \<open>The values that select one of a session's fulfillment options.\<close>

definition option_ids :: "session \<Rightarrow> js set" where
  "option_ids s = (\<lambda>opt. JString (opt_id opt)) ` set (fulfillment_options s)"

text \<open>Every stored session selects one of its own fulfillment options.\<close>

definition selection_valid :: "state \<Rightarrow> bool" where
  "selection_valid st =
     (\<forall>sid s. checkoutSessions st sid = Some s \<longrightarrow> fulfillment_option_id s \<in> option_ids s)"

text \<open>Every stored order is filed under its own id and is the order of its session, which is
  completed.\<close>

definition orders_linked :: "state \<Rightarrow> bool" where
  "orders_linked st =
     (\<forall>oid ord. orders st oid = Some ord \<longrightarrow>
        (\<exists>s. checkoutSessions st (checkout_session_id ord) = Some s
              \<and> status s = Completed \<and> session_order s = Some ord \<and> order_id ord = oid))"

text \<open>A run that creates the sample session and selects its express option.\<close>

definition select_express_run :: "request list" where
  "select_express_run = [Create env_a create_body, Update env_b sid_a express_body]"

text \<open>Requests served after the sample session exists; none of them draws its id.\<close>

definition later_requests :: "request list" where
  "later_requests =
     [Update env_d sid_a bogus_option_body, Cancel env_d sid_a, Create env_c create_body,
      Delegate env_a card_body, Complete env_d sid_c payment_body]"

text \<open>A run that creates two sessions and completes both.\<close>

definition two_orders_run :: "request list" where
  "two_orders_run =
     [Create env_a create_body, Create env_c create_body,
      Complete env_b sid_a payment_body, Complete env_d sid_c payment_body]"

section \<open>Pricing\<close>

lemma foldl_base_amount:
  "foldl (\<lambda>sum item. sum + base_amount item) a xs = a + sum_list (map base_amount xs)"
  by (induction xs arbitrary: a) simp_all

text \<open>
  C7. For every line-item sequence and every selected option (or none), the Pricing
  Calculator returns exactly the five entries items_base_amount, subtotal, tax,
  fulfillment, total, in this order: items_base_amount is the sum of the base amounts,
  subtotal is the same amount, tax is the floor of a tenth of it, fulfillment is the
  option's total (0 without an option), and total is subtotal + tax + fulfillment.
\<close>

theorem calculateTotals_breakdown:
  "calculateTotals lineItems fulfillmentOption =
     [\<lparr>entry_type = ''items_base_amount'', display_text = ''Item(s) total'',
        amount = sum_list (map base_amount lineItems)\<rparr>,
      \<lparr>entry_type = ''subtotal'', display_text = ''Subtotal'',
        amount = sum_list (map base_amount lineItems)\<rparr>,
      \<lparr>entry_type = ''tax'', display_text = ''Tax'',
        amount = \<lfloor>(1 / 10) * real_of_int (sum_list (map base_amount lineItems))\<rfloor>\<rparr>,
      \<lparr>entry_type = ''fulfillment'', display_text = ''Fulfillment'',
        amount = (case fulfillmentOption of Some opt \<Rightarrow> opt_total opt | None \<Rightarrow> 0)\<rparr>,
      \<lparr>entry_type = ''total'', display_text = ''Total'',
        amount = sum_list (map base_amount lineItems)
               + \<lfloor>(1 / 10) * real_of_int (sum_list (map base_amount lineItems))\<rfloor>
               + (case fulfillmentOption of Some opt \<Rightarrow> opt_total opt | None \<Rightarrow> 0)\<rparr>]"
proof -
  have tenth: "floor_tenth n = \<lfloor>(1 / 10) * real_of_int n\<rfloor>" for n
    unfolding floor_tenth_def
    using floor_divide_of_int_eq [of n 10, where ?'a = real] by simp
  show ?thesis
    unfolding calculateTotals_def Let_def foldl_base_amount tenth by simp
qed

section \<open>Evaluating the handlers\<close>

lemmas model_defs =
  create_def update_def update_fields_def replace_items_def recalculate_def
  createLineItems_def createFulfillmentOptions_def price_item_def calculateTotals_def
  find_option_def floor_tenth_def init_state_def Let_def enumerate_eq_zip

lemmas sample_defs =
  env_a_def env_b_def env_c_def env_d_def create_body_def sid_a_def sid_c_def state_a_def
  bogus_option_body_def payment_body_def paypal_recurring_body_def card_body_def
  express_body_def empty_items_body_def state_completed_def state_two_def
  recurring_body_def no_risk_body_def absent_risk_body_def

section \<open>Update and its validation failures\<close>

text \<open>
  C1. An Update that fails validation is said to change no part of the stored session,
  also when the failing request supplies items. The handler assigns
  \<^verbatim>\<open>session.line_items\<close> to the stored object before it looks the option id up: on the
  session made by the sample Create (one item of base amount 2500, totals 2500, 2500, 250,
  100, 2850), the Update with new items and the option id \<^verbatim>\<open>bogus\<close> is answered with the
  error \<^verbatim>\<open>invalid\<close>, and afterwards the stored session holds the new item (base amount
  4000) next to the totals of the old one.
\<close>

theorem update_partial_write:
  "snd (update env_b sid_a bogus_option_body state_a) = Inl invalid_option
   \<and> map_option (map base_amount \<circ> line_items) (checkoutSessions state_a sid_a) = Some [2500]
   \<and> map_option (map amount \<circ> totals) (checkoutSessions state_a sid_a)
       = Some [2500, 2500, 250, 100, 2850]
   \<and> map_option (map base_amount \<circ> line_items)
        (checkoutSessions (fst (update env_b sid_a bogus_option_body state_a)) sid_a)
       = Some [4000]
   \<and> map_option (map amount \<circ> totals)
        (checkoutSessions (fst (update env_b sid_a bogus_option_body state_a)) sid_a)
       = Some [2500, 2500, 250, 100, 2850]"
  by (simp add: model_defs sample_defs)

text \<open>
  The failures that do leave the maps untouched: every failed Update whose body has
  neither (truthy) items nor a (truthy) fulfillment address.
\<close>

lemma store_same:
  "checkoutSessions st k = Some s \<Longrightarrow>
     st\<lparr>checkoutSessions := (checkoutSessions st)(k \<mapsto> s)\<rparr> = st"
  by (simp add: map_upd_triv)

lemma update_fields_failure_unchanged:
  assumes "update_fields e body s = (s', Inl err)"
    and "\<not> truthy (get_prop body ''items'')"
    and "\<not> truthy (get_prop body ''fulfillment_address'')"
  shows "s' = s"
  using assms
  by (auto simp: update_fields_def replace_items_def recalculate_def Let_def
        split: if_splits option.splits)

lemma update_failure_unchanged:
  assumes "update e sid body st = (st', Inl err)"
    and "\<not> truthy (get_prop body ''items'')"
    and "\<not> truthy (get_prop body ''fulfillment_address'')"
  shows "st' = st"
  using assms
  by (auto simp: update_def store_same split: option.splits if_splits prod.splits
        dest: update_fields_failure_unchanged)

section \<open>What a successful Create or Update returns and stores\<close>

lemma find_option_head:
  "find_option (opt # rest) (JString (opt_id opt)) = Some opt"
  by (simp add: find_option_def)

lemma create_success:
  assumes "create e body st = (st', Inr (hs, s))"
  shows "hs = 201"
    and "st' = st\<lparr>checkoutSessions := (checkoutSessions st)(session_id s \<mapsto> s)\<rparr>"
    and "session_id s = ''checkout_session_'' @ take 12 (uuid e 0)"
    and "status s = Ready_for_payment"
    and "\<exists>opt rest. fulfillment_options s = opt # rest \<and> title opt = ''Standard''
           \<and> fulfillment_option_id s = JString (opt_id opt)
           \<and> totals s = calculateTotals (line_items s) (Some opt)"
  using assms
  by (auto simp: create_def Let_def createFulfillmentOptions_def
           split: if_splits js.splits)

lemma recalculate_result:
  "recalculate e s = (s', r) \<Longrightarrow>
     r = Inr (200, s')
     \<and> s' = s\<lparr>totals := calculateTotals (line_items s)
                   (find_option (fulfillment_options s) (fulfillment_option_id s)),
              updated_at := clock e 0\<rparr>"
  by (auto simp: recalculate_def Let_def)

lemma update_fields_success:
  assumes "update_fields e body s = (s', Inr (hs, r))"
  shows "r = s'" and "hs = 200"
    and "totals s' = calculateTotals (line_items s')
                          (find_option (fulfillment_options s') (fulfillment_option_id s'))"
  using assms
  by (auto simp: update_fields_def Let_def
           split: if_splits option.splits dest!: recalculate_result)

lemma update_success:
  assumes "update e sid body st = (st', Inr (hs, r))"
  shows "\<exists>s. checkoutSessions st sid = Some s \<and> status s = Ready_for_payment
           \<and> update_fields e body s = (r, Inr (hs, r))"
    and "st' = st\<lparr>checkoutSessions := (checkoutSessions st)(sid \<mapsto> r)\<rparr>"
  using assms
  by (auto simp: update_def split: option.splits if_splits prod.splits
           dest: update_fields_success intro: session_status.exhaust)

text \<open>
  C2. After every successful Create and every successful Update, the session the map
  holds under the id is the one returned, and its totals are exactly the Pricing
  Calculator's output for its current line items and the option its
  \<open>fulfillment_option_id\<close> selects among its fulfillment options.
\<close>

theorem totals_never_stale:
  "(create e body st = (st', Inr (hs, s)) \<longrightarrow>
      checkoutSessions st' (session_id s) = Some s
      \<and> totals s = calculateTotals (line_items s)
                     (find_option (fulfillment_options s) (fulfillment_option_id s)))
   \<and> (update e' sid body' st0 = (st'', Inr (hs', s')) \<longrightarrow>
      checkoutSessions st'' sid = Some s'
      \<and> totals s' = calculateTotals (line_items s')
                      (find_option (fulfillment_options s') (fulfillment_option_id s')))"
proof (intro conjI impI)
  assume c: "create e body st = (st', Inr (hs, s))"
  from create_success(2) [OF c] show "checkoutSessions st' (session_id s) = Some s" by simp
  from create_success(5) [OF c]
  show "totals s = calculateTotals (line_items s)
                     (find_option (fulfillment_options s) (fulfillment_option_id s))"
    by (auto simp: find_option_head)
next
  assume u: "update e' sid body' st0 = (st'', Inr (hs', s'))"
  from update_success(2) [OF u] show "checkoutSessions st'' sid = Some s'" by simp
  from update_success(1) [OF u] obtain s0 where
    f: "update_fields e' body' s0 = (s', Inr (hs', s'))"
    by auto
  from update_fields_success(3) [OF f]
  show "totals s' = calculateTotals (line_items s')
                      (find_option (fulfillment_options s') (fulfillment_option_id s'))" .
qed

text \<open>
  The sample Create gives the totals 2500, 2500, 250, 100, 2850; selecting the express
  option afterwards gives 2500, 2500, 250, 500, 3250.
\<close>

theorem totals_never_stale_witness:
  "\<exists>st' s st'' s'.
      create env_a create_body init_state = (st', Inr (201, s))
      \<and> checkoutSessions st' (session_id s) = Some s
      \<and> totals s = calculateTotals (line_items s)
                     (find_option (fulfillment_options s) (fulfillment_option_id s))
      \<and> map amount (totals s) = [2500, 2500, 250, 100, 2850]
      \<and> update env_b sid_a express_body state_a = (st'', Inr (200, s'))
      \<and> checkoutSessions st'' sid_a = Some s'
      \<and> totals s' = calculateTotals (line_items s')
                      (find_option (fulfillment_options s') (fulfillment_option_id s'))
      \<and> map amount (totals s') = [2500, 2500, 250, 500, 3250]"
proof -
  obtain st' s where c: "create env_a create_body init_state = (st', Inr (201, s))"
    by (simp add: model_defs sample_defs)
  obtain st'' s' where u: "update env_b sid_a express_body state_a = (st'', Inr (200, s'))"
    by (simp add: model_defs sample_defs)
  from c have a: "map amount (totals s) = [2500, 2500, 250, 100, 2850]"
    by (auto simp: model_defs sample_defs)
  from u have b: "map amount (totals s') = [2500, 2500, 250, 500, 3250]"
    by (auto simp: model_defs sample_defs)
  note t = totals_never_stale
    [of env_a create_body init_state st' 201 s env_b sid_a express_body state_a st'' 200 s']
  show ?thesis
    apply (rule exI [of _ st'], rule exI [of _ s], rule exI [of _ st''], rule exI [of _ s'])
    using c u a b t apply simp
    done
qed

section \<open>Update with an empty items array\<close>

lemma createLineItems_Nil: "createLineItems e k [] = []"
  by (simp add: createLineItems_def)

lemma calculateTotals_Nil:
  "map amount (calculateTotals [] fo) =
     [0, 0, 0, (case fo of Some opt \<Rightarrow> opt_total opt | None \<Rightarrow> 0),
      (case fo of Some opt \<Rightarrow> opt_total opt | None \<Rightarrow> 0)]"
  by (simp add: calculateTotals_def floor_tenth_def Let_def)

text \<open>
  C10. Create rejects a body whose items are the empty array, with the error
  \<^verbatim>\<open>invalid\<close> and no change of the maps. Update on a \<open>ready_for_payment\<close> session
  accepts it (the empty array is truthy): provided the request names no fulfillment option
  or one the session has, it succeeds, the stored session has no line items, and its
  totals are 0, 0, 0 followed twice by the total of the selected option.
\<close>

theorem update_accepts_empty_items:
  assumes stored: "checkoutSessions st sid = Some s"
    and ready: "status s = Ready_for_payment"
    and items: "get_prop body ''items'' = JArray []"
    and option: "find_option (fulfillment_options s) (get_prop body ''fulfillment_option_id'') \<noteq> None
                 \<or> \<not> truthy (get_prop body ''fulfillment_option_id'')"
    and create_items: "get_prop body' ''items'' = JArray []"
  shows "create e' body' st = (st, Inl invalid_items)
         \<and> (\<exists>st' s'. update e sid body st = (st', Inr (200, s'))
               \<and> checkoutSessions st' sid = Some s'
               \<and> line_items s' = []
               \<and> map amount (totals s') =
                   (let fulfillment =
                          (case find_option (fulfillment_options s') (fulfillment_option_id s') of
                             Some opt \<Rightarrow> opt_total opt
                           | None \<Rightarrow> 0)
                    in [0, 0, 0, fulfillment, fulfillment]))"
proof
  from create_items have "destructurable body'"
    by (cases body') simp_all
  with create_items show "create e' body' st = (st, Inl invalid_items)"
    by (simp add: create_def)
next
  from items have d: "destructurable body"
    by (cases body) simp_all
  show "\<exists>st' s'. update e sid body st = (st', Inr (200, s'))
           \<and> checkoutSessions st' sid = Some s'
           \<and> line_items s' = []
           \<and> map amount (totals s') =
               (let fulfillment =
                      (case find_option (fulfillment_options s') (fulfillment_option_id s') of
                         Some opt \<Rightarrow> opt_total opt
                       | None \<Rightarrow> 0)
                in [0, 0, 0, fulfillment, fulfillment])"
    using stored ready items option d
    by (auto simp: update_def update_fields_def replace_items_def recalculate_def Let_def
          createLineItems_Nil calculateTotals_Nil split: option.splits)
qed

text \<open>On the sample session, whose selected option is the standard one (100).\<close>

theorem update_accepts_empty_items_witness:
  "create env_c empty_items_body state_a = (state_a, Inl invalid_items)
   \<and> (\<exists>st' s'. update env_b sid_a empty_items_body state_a = (st', Inr (200, s'))
          \<and> checkoutSessions st' sid_a = Some s'
          \<and> line_items s' = []
          \<and> map amount (totals s') = [0, 0, 0, 100, 100])"
proof -
  obtain s where stored: "checkoutSessions state_a sid_a = Some s"
    and ready: "status s = Ready_for_payment"
    by (simp add: model_defs sample_defs)
  have items: "get_prop empty_items_body ''items'' = JArray []"
    by (simp add: empty_items_body_def)
  have option:
    "find_option (fulfillment_options s) (get_prop empty_items_body ''fulfillment_option_id'') \<noteq> None
     \<or> \<not> truthy (get_prop empty_items_body ''fulfillment_option_id'')"
    by (simp add: empty_items_body_def)
  note t = update_accepts_empty_items [OF stored ready items option items, of env_c env_b]
  from t obtain st' s' where
    u: "update env_b sid_a empty_items_body state_a = (st', Inr (200, s'))"
    and rest: "checkoutSessions st' sid_a = Some s'" "line_items s' = []"
    by auto
  from u have "map amount (totals s') = [0, 0, 0, 100, 100]"
    by (auto simp: model_defs sample_defs empty_items_body_def)
  with u rest t show ?thesis
    by auto
qed

section \<open>Operations on a terminal session\<close>

text \<open>
  C4. On a session whose status is \<open>completed\<close> or \<open>canceled\<close>, Cancel fails and
  changes none of the maps, and its error answer is not the one Update or Complete give
  on the same session: Cancel answers with HTTP status 405, Update and Complete with 400
  (the three bodies carry the code \<^verbatim>\<open>invalid_status\<close> and differ in their message).
\<close>

theorem cancel_terminal_distinct:
  assumes stored: "checkoutSessions st sid = Some s"
    and terminal: "status s = Completed \<or> status s = Canceled"
  shows "cancel e sid st = (st, Inl (invalid_status 405 ''cancel'' (status s)))
         \<and> update e1 sid body1 st = (st, Inl (invalid_status 400 ''update'' (status s)))
         \<and> complete_session e2 sid body2 st = (st, Inl (invalid_status 400 ''complete'' (status s)))
         \<and> snd (cancel e sid st) \<noteq> snd (update e1 sid body1 st)
         \<and> snd (cancel e sid st) \<noteq> snd (complete_session e2 sid body2 st)
         \<and> http_status (invalid_status 405 ''cancel'' (status s)) = 405
         \<and> http_status (invalid_status 400 ''update'' (status s)) = 400
         \<and> http_status (invalid_status 400 ''complete'' (status s)) = 400"
  using assms
  by (auto simp: cancel_def update_def complete_session_def invalid_status_def)

text \<open>On the sample session after its completion.\<close>

theorem cancel_terminal_distinct_witness:
  "cancel env_d sid_a state_completed = (state_completed, Inl (invalid_status 405 ''cancel'' Completed))
   \<and> update env_c sid_a express_body state_completed
       = (state_completed, Inl (invalid_status 400 ''update'' Completed))
   \<and> complete_session env_c sid_a payment_body state_completed
       = (state_completed, Inl (invalid_status 400 ''complete'' Completed))
   \<and> snd (cancel env_d sid_a state_completed) \<noteq> snd (update env_c sid_a express_body state_completed)
   \<and> snd (cancel env_d sid_a state_completed) \<noteq> snd (complete_session env_c sid_a payment_body state_completed)"
proof -
  obtain s where stored: "checkoutSessions state_completed sid_a = Some s"
    and st: "status s = Completed"
    by (simp add: state_completed_def complete_session_def model_defs sample_defs)
  from st have terminal: "status s = Completed \<or> status s = Canceled" by simp
  from cancel_terminal_distinct [OF stored terminal, of env_d env_c express_body env_c payment_body] st
  show ?thesis by (simp add: invalid_status_def)
qed

section \<open>Complete and the payment tokens\<close>

text \<open>
  C5 as stated fails: Complete never looks a token up. With no token in the token map,
  the first sample session is completed with the token \<^verbatim>\<open>vt_x\<close>, and then the second
  sample session is completed with the same token.
\<close>

theorem complete_unminted_token_counterexample:
  "paymentTokens state_two ''vt_x'' = None
   \<and> get_prop (get_prop payment_body ''payment_data'') ''token'' = JString ''vt_x''
   \<and> \<not> isl (snd (complete_session env_b sid_a payment_body state_two))
   \<and> map_option status
        (checkoutSessions (fst (complete_session env_b sid_a payment_body state_two)) sid_a)
       = Some Completed
   \<and> \<not> isl (snd (complete_session env_d sid_c payment_body
                   (fst (complete_session env_b sid_a payment_body state_two))))
   \<and> map_option status
        (checkoutSessions
           (fst (complete_session env_d sid_c payment_body
                   (fst (complete_session env_b sid_a payment_body state_two)))) sid_c)
       = Some Completed"
  by (simp add: complete_session_def model_defs sample_defs)

text \<open>A truthy \<^verbatim>\<open>payment_data.token\<close> needs an object body with an object \<^verbatim>\<open>payment_data\<close>.\<close>

lemma truthy_token_destructurable:
  "truthy (get_prop (get_prop body ''payment_data'') ''token'') \<Longrightarrow>
     destructurable body \<and> truthy (get_prop body ''payment_data'')"
  by (cases body; cases "get_prop body ''payment_data''") simp_all

text \<open>
  C5, amended. A token only has to be present at completion: Complete leaves the token
  map as it is, its answer does not depend on the token map, and on a
  \<open>ready_for_payment\<close> session it succeeds and completes the session for every truthy
  \<^verbatim>\<open>payment_data.token\<close>, whether Delegate minted it or an earlier Complete used it.
\<close>

theorem complete_ignores_token_store:
  "paymentTokens (fst (complete_session e sid body st)) = paymentTokens st
   \<and> snd (complete_session e sid body (st\<lparr>paymentTokens := toks\<rparr>))
       = snd (complete_session e sid body st)
   \<and> (checkoutSessions st sid = Some s \<and> status s = Ready_for_payment
        \<and> truthy (get_prop (get_prop body ''payment_data'') ''token'')
       \<longrightarrow> \<not> isl (snd (complete_session e sid body st))
           \<and> map_option status (checkoutSessions (fst (complete_session e sid body st)) sid)
               = Some Completed)"
proof (intro conjI impI)
  show "paymentTokens (fst (complete_session e sid body st)) = paymentTokens st"
    by (simp add: complete_session_def Let_def split: option.splits)
  show "snd (complete_session e sid body (st\<lparr>paymentTokens := toks\<rparr>))
       = snd (complete_session e sid body st)"
    by (simp add: complete_session_def Let_def split: option.splits)
next
  assume a: "checkoutSessions st sid = Some s \<and> status s = Ready_for_payment
        \<and> truthy (get_prop (get_prop body ''payment_data'') ''token'')"
  with truthy_token_destructurable [of body]
  show "\<not> isl (snd (complete_session e sid body st))"
    by (simp add: complete_session_def Let_def)
  from a truthy_token_destructurable [of body]
  show "map_option status (checkoutSessions (fst (complete_session e sid body st)) sid)
               = Some Completed"
    by (simp add: complete_session_def Let_def)
qed


text \<open>On the sample session, with the token \<^verbatim>\<open>vt_x\<close>.\<close>

theorem complete_ignores_token_store_witness:
  "paymentTokens (fst (complete_session env_b sid_a payment_body state_a)) = paymentTokens state_a
   \<and> snd (complete_session env_b sid_a payment_body (state_a\<lparr>paymentTokens := paymentTokens init_state\<rparr>))
       = snd (complete_session env_b sid_a payment_body state_a)
   \<and> truthy (get_prop (get_prop payment_body ''payment_data'') ''token'')
   \<and> \<not> isl (snd (complete_session env_b sid_a payment_body state_a))
   \<and> map_option status (checkoutSessions (fst (complete_session env_b sid_a payment_body state_a)) sid_a)
       = Some Completed"
proof -
  obtain s where stored: "checkoutSessions state_a sid_a = Some s"
    and ready: "status s = Ready_for_payment"
    by (simp add: model_defs sample_defs)
  have tok: "truthy (get_prop (get_prop payment_body ''payment_data'') ''token'')"
    by (simp add: payment_body_def)
  from complete_ignores_token_store
         [of env_b sid_a payment_body state_a "paymentTokens init_state" s]
       stored ready tok
  show ?thesis by simp
qed

section \<open>Delegate: validation\<close>

text \<open>Only an object has a property that is a string.\<close>

lemma card_type_truthy:
  "get_prop v k = JString x \<Longrightarrow> truthy v"
  by (cases v) simp_all

text \<open>
  C8. Delegate fails with the card-type error whenever \<^verbatim>\<open>payment_method.type\<close> is not
  \<^verbatim>\<open>card\<close> (a missing payment method included); with the allowance-reason error whenever
  the payment method is a card and \<^verbatim>\<open>allowance.reason\<close> is not \<^verbatim>\<open>one_time\<close>; and with the
  missing-risk-signal error whenever these two checks pass and \<^verbatim>\<open>risk_signals\<close> is absent,
  an empty array or no array at all. The handler answers one error per request, the one
  of the first check that fails. A request whose body is \<^verbatim>\<open>null\<close> or \<^verbatim>\<open>undefined\<close> has no
  \<^verbatim>\<open>payment_method\<close> to read: the handler answers it with the internal error. On every
  failure, this one included, the three maps are unchanged, so no token is stored.
\<close>

theorem delegate_validation:
  "(destructurable body
      \<and> get_prop (get_prop body ''payment_method'') ''type'' \<noteq> JString ''card''
    \<longrightarrow> delegate_payment e body st = (st, Inl invalid_card))
   \<and> (get_prop (get_prop body ''payment_method'') ''type'' = JString ''card''
        \<and> get_prop (get_prop body ''allowance'') ''reason'' \<noteq> JString ''one_time''
      \<longrightarrow> delegate_payment e body st = (st, Inl invalid_allowance))
   \<and> (get_prop (get_prop body ''payment_method'') ''type'' = JString ''card''
        \<and> get_prop (get_prop body ''allowance'') ''reason'' = JString ''one_time''
        \<and> \<not> is_nonempty_array (get_prop body ''risk_signals'')
      \<longrightarrow> delegate_payment e body st = (st, Inl invalid_risk_signals))
   \<and> (\<not> destructurable body \<longrightarrow> delegate_payment e body st = (st, Inl internal_error))
   \<and> (isl (snd (delegate_payment e body st)) \<longrightarrow> fst (delegate_payment e body st) = st)"
proof (intro conjI impI)
  assume "destructurable body
      \<and> get_prop (get_prop body ''payment_method'') ''type'' \<noteq> JString ''card''"
  then show "delegate_payment e body st = (st, Inl invalid_card)"
    by (simp add: delegate_payment_def)
next
  assume a: "get_prop (get_prop body ''payment_method'') ''type'' = JString ''card''
              \<and> get_prop (get_prop body ''allowance'') ''reason'' \<noteq> JString ''one_time''"
  then have "truthy (get_prop body ''payment_method'')"
    by (auto dest: card_type_truthy)
  then have "destructurable body"
    by (cases body) simp_all
  with a show "delegate_payment e body st = (st, Inl invalid_allowance)"
    by (auto simp: delegate_payment_def dest: card_type_truthy)
next
  assume a: "get_prop (get_prop body ''payment_method'') ''type'' = JString ''card''
              \<and> get_prop (get_prop body ''allowance'') ''reason'' = JString ''one_time''
              \<and> \<not> is_nonempty_array (get_prop body ''risk_signals'')"
  then have t: "truthy (get_prop body ''payment_method'')" "truthy (get_prop body ''allowance'')"
    by (auto dest: card_type_truthy)
  from t(1) have "destructurable body"
    by (cases body) simp_all
  with a t show "delegate_payment e body st = (st, Inl invalid_risk_signals)"
    by (cases "get_prop body ''risk_signals''")
       (auto simp: delegate_payment_def Let_def neq_Nil_conv)
next
  assume "\<not> destructurable body"
  then show "delegate_payment e body st = (st, Inl internal_error)"
    by (simp add: delegate_payment_def)
next
  assume "isl (snd (delegate_payment e body st))"
  then show "fst (delegate_payment e body st) = st"
    by (auto simp: delegate_payment_def Let_def split: if_splits js.splits)
qed

text \<open>
  Sample bodies: a \<^verbatim>\<open>paypal\<close> payment method (with an allowance that is not one-time as
  well: the card-type error is the answer), a card with a recurring allowance, a card with
  a one-time allowance and an empty or an absent \<^verbatim>\<open>risk_signals\<close>, and the body \<^verbatim>\<open>null\<close>.
  None of them changes the maps.
\<close>

theorem delegate_validation_witness:
  "delegate_payment env_a paypal_recurring_body init_state = (init_state, Inl invalid_card)
   \<and> delegate_payment env_a recurring_body init_state = (init_state, Inl invalid_allowance)
   \<and> delegate_payment env_a no_risk_body init_state = (init_state, Inl invalid_risk_signals)
   \<and> delegate_payment env_a absent_risk_body init_state = (init_state, Inl invalid_risk_signals)
   \<and> delegate_payment env_a JNull init_state = (init_state, Inl internal_error)
   \<and> isl (snd (delegate_payment env_a paypal_recurring_body init_state))
   \<and> fst (delegate_payment env_a paypal_recurring_body init_state) = init_state"
proof -
  from delegate_validation [of paypal_recurring_body env_a init_state]
  have 1: "delegate_payment env_a paypal_recurring_body init_state = (init_state, Inl invalid_card)"
    by (simp add: paypal_recurring_body_def)
  from delegate_validation [of recurring_body env_a init_state]
  have 2: "delegate_payment env_a recurring_body init_state = (init_state, Inl invalid_allowance)"
    by (simp add: recurring_body_def)
  from delegate_validation [of no_risk_body env_a init_state]
  have 3: "delegate_payment env_a no_risk_body init_state = (init_state, Inl invalid_risk_signals)"
    by (simp add: no_risk_body_def)
  from delegate_validation [of absent_risk_body env_a init_state]
  have 4: "delegate_payment env_a absent_risk_body init_state = (init_state, Inl invalid_risk_signals)"
    by (simp add: absent_risk_body_def)
  from delegate_validation [of JNull env_a init_state]
  have 5: "delegate_payment env_a JNull init_state = (init_state, Inl internal_error)"
    by simp
  from 1 have 6: "isl (snd (delegate_payment env_a paypal_recurring_body init_state))"
    by simp
  from 6 delegate_validation [of paypal_recurring_body env_a init_state]
  have 7: "fst (delegate_payment env_a paypal_recurring_body init_state) = init_state"
    by blast
  from 1 2 3 4 5 6 7 show ?thesis by simp
qed

section \<open>Delegate: the minted token\<close>

text \<open>
  C9. On every successful Delegate the answer is 201 with exactly the id (made from the
  \<^verbatim>\<open>uuidv4()\<close> the request draws), the creation time and the metadata (\<^verbatim>\<open>{}\<close> when the
  request has none); the token map is the old one with the full token record stored under
  that id; and the answer is the same for every request with the same metadata, whatever
  its payment method, allowance, billing address and risk signals are.
\<close>

theorem delegate_success:
  assumes ok: "delegate_payment e body st = (st', Inr (hs, resp))"
  shows "hs = 201
         \<and> resp = \<lparr>resp_id = ''vt_'' @ take 12 (uuid e 0),
                   resp_created = clock e 0,
                   resp_metadata =
                     (if truthy (get_prop body ''metadata'') then get_prop body ''metadata''
                      else JObject [])\<rparr>
         \<and> st' = st\<lparr>paymentTokens := (paymentTokens st)(resp_id resp \<mapsto>
                      \<lparr>token_id = resp_id resp,
                       created = resp_created resp,
                       payment_method = get_prop body ''payment_method'',
                       allowance = get_prop body ''allowance'',
                       billing_address = get_prop body ''billing_address'',
                       risk_signals = get_prop body ''risk_signals'',
                       metadata = resp_metadata resp\<rparr>)\<rparr>
         \<and> (\<forall>body2 st2 st2' hs2 resp2.
               delegate_payment e body2 st2 = (st2', Inr (hs2, resp2))
               \<and> get_prop body2 ''metadata'' = get_prop body ''metadata''
               \<longrightarrow> resp2 = resp)"
proof -
  have shape: "hs0 = 201
        \<and> resp0 = \<lparr>resp_id = ''vt_'' @ take 12 (uuid e 0),
                   resp_created = clock e 0,
                   resp_metadata =
                     (if truthy (get_prop body0 ''metadata'') then get_prop body0 ''metadata''
                      else JObject [])\<rparr>
        \<and> st0' = st0\<lparr>paymentTokens := (paymentTokens st0)(resp_id resp0 \<mapsto>
                      \<lparr>token_id = resp_id resp0,
                       created = resp_created resp0,
                       payment_method = get_prop body0 ''payment_method'',
                       allowance = get_prop body0 ''allowance'',
                       billing_address = get_prop body0 ''billing_address'',
                       risk_signals = get_prop body0 ''risk_signals'',
                       metadata = resp_metadata resp0\<rparr>)\<rparr>"
    if "delegate_payment e body0 st0 = (st0', Inr (hs0, resp0))"
    for body0 st0 st0' hs0 resp0
    using that
    by (auto simp: delegate_payment_def Let_def split: if_splits js.splits)
  from shape [OF ok] show ?thesis
    by (auto dest!: shape)
qed

text \<open>On the sample card body.\<close>

theorem delegate_success_witness:
  "\<exists>st' resp. delegate_payment env_a card_body init_state = (st', Inr (201, resp))
      \<and> resp = \<lparr>resp_id = ''vt_1b9d6bcd-bbf'', resp_created = 1700000000000,
                 resp_metadata = JObject [(''source'', JString ''api_test'')]\<rparr>
      \<and> map_option payment_method (paymentTokens st' ''vt_1b9d6bcd-bbf'')
          = Some (JObject [(''type'', JString ''card''), (''number'', JString ''4242424242424242'')])"
proof -
  obtain st' resp where ok: "delegate_payment env_a card_body init_state = (st', Inr (201, resp))"
    by (simp add: delegate_payment_def sample_defs Let_def)
  from delegate_success [OF ok]
  have "resp = \<lparr>resp_id = ''vt_1b9d6bcd-bbf'', resp_created = 1700000000000,
                 resp_metadata = JObject [(''source'', JString ''api_test'')]\<rparr>"
    and "map_option payment_method (paymentTokens st' ''vt_1b9d6bcd-bbf'')
          = Some (JObject [(''type'', JString ''card''), (''number'', JString ''4242424242424242'')])"
    by (simp_all add: sample_defs)
  with ok show ?thesis by blast
qed

section \<open>What the handlers keep of a stored session\<close>

lemma find_option_Some:
  "find_option opts v = Some opt \<Longrightarrow> v = JString (opt_id opt) \<and> opt \<in> set opts"
  unfolding find_option_def
  by (induction opts) (auto split: if_splits)

lemma replace_items_keeps:
  "replace_items e items s = Some s1 \<Longrightarrow>
     fulfillment_options s1 = fulfillment_options s \<and> status s1 = status s
     \<and> session_order s1 = session_order s \<and> fulfillment_option_id s1 = fulfillment_option_id s"
  by (auto simp: replace_items_def split: if_splits js.splits)

lemma recalculate_keeps:
  "recalculate e s = (s', r) \<Longrightarrow>
     fulfillment_options s' = fulfillment_options s \<and> status s' = status s
     \<and> session_order s' = session_order s \<and> fulfillment_option_id s' = fulfillment_option_id s"
  by (auto simp: recalculate_def Let_def)

lemma update_fields_keeps:
  assumes "update_fields e body s = (s', r)"
  shows "fulfillment_options s' = fulfillment_options s"
    and "status s' = status s"
    and "session_order s' = session_order s"
    and "fulfillment_option_id s' = fulfillment_option_id s
          \<or> fulfillment_option_id s' \<in> (\<lambda>opt. JString (opt_id opt)) ` set (fulfillment_options s)"
  using assms
  by (auto simp: update_fields_def Let_def
        split: if_splits option.splits
        dest!: replace_items_keeps recalculate_keeps find_option_Some)

text \<open>Where a session found in the map after a request comes from.\<close>

lemma create_sessions:
  "checkoutSessions (fst (create e body st)) sid = Some s \<Longrightarrow>
     checkoutSessions st sid = Some s
     \<or> (\<exists>hs. create e body st = (fst (create e body st), Inr (hs, s)))"
  by (auto simp: create_def Let_def createFulfillmentOptions_def
        split: if_splits js.splits)

lemma update_sessions:
  "checkoutSessions (fst (update e k body st)) sid = Some s' \<Longrightarrow>
     checkoutSessions st sid = Some s'
     \<or> (\<exists>s r. checkoutSessions st sid = Some s \<and> status s = Ready_for_payment
              \<and> update_fields e body s = (s', r))"
  by (auto simp: update_def split: option.splits if_splits prod.splits
        intro: session_status.exhaust)

lemma complete_sessions:
  "checkoutSessions (fst (complete_session e k body st)) sid = Some s' \<Longrightarrow>
     checkoutSessions st sid = Some s'
     \<or> (\<exists>s. checkoutSessions st sid = Some s \<and> status s = Ready_for_payment
              \<and> fulfillment_options s' = fulfillment_options s
              \<and> fulfillment_option_id s' = fulfillment_option_id s)"
  by (auto simp: complete_session_def Let_def split: option.splits if_splits)

lemma cancel_sessions:
  "checkoutSessions (fst (cancel e k st)) sid = Some s' \<Longrightarrow>
     checkoutSessions st sid = Some s'
     \<or> (\<exists>s. checkoutSessions st sid = Some s \<and> status s = Ready_for_payment
              \<and> fulfillment_options s' = fulfillment_options s
              \<and> fulfillment_option_id s' = fulfillment_option_id s)"
  by (auto simp: cancel_def Let_def split: option.splits if_splits
        intro: session_status.exhaust)

lemma retrieve_state: "fst (retrieve k st) = st"
  by (simp add: retrieve_def split: option.splits)

lemma delegate_sessions:
  "checkoutSessions (fst (delegate_payment e body st)) = checkoutSessions st"
  by (auto simp: delegate_payment_def Let_def split: if_splits js.splits)

lemma selection_valid_handle:
  assumes inv: "selection_valid st"
  shows "selection_valid (handle r st)"
  unfolding selection_valid_def
proof (intro allI impI)
  fix sid s'
  assume stored: "checkoutSessions (handle r st) sid = Some s'"
  show "fulfillment_option_id s' \<in> option_ids s'"
  proof (cases r)
    case (Create e body)
    with stored create_sessions [of e body st sid s']
    consider "checkoutSessions st sid = Some s'"
      | hs where "create e body st = (fst (create e body st), Inr (hs, s'))"
      by auto
    then show ?thesis
    proof cases
      case 1
      with inv show ?thesis by (simp add: selection_valid_def)
    next
      case 2
      from create_success(5) [OF 2] show ?thesis
        by (auto simp: option_ids_def)
    qed
  next
    case (Update e k body)
    with stored update_sessions [of e k body st sid s']
    consider "checkoutSessions st sid = Some s'"
      | s r where "checkoutSessions st sid = Some s" "update_fields e body s = (s', r)"
      by auto
    then show ?thesis
    proof cases
      case 1
      with inv show ?thesis by (simp add: selection_valid_def)
    next
      case 2
      from inv 2(1) have "fulfillment_option_id s \<in> option_ids s"
        by (simp add: selection_valid_def)
      with update_fields_keeps(1,4) [OF 2(2)] show ?thesis
        by (auto simp: option_ids_def)
    qed
  next
    case (Retrieve k)
    with stored inv show ?thesis
      by (simp add: retrieve_state selection_valid_def)
  next
    case (Complete e k body)
    with stored complete_sessions [of e k body st sid s'] inv show ?thesis
      by (auto simp: selection_valid_def option_ids_def)
  next
    case (Cancel e k)
    with stored cancel_sessions [of e k st sid s'] inv show ?thesis
      by (auto simp: selection_valid_def option_ids_def)
  next
    case (Delegate e body)
    with stored inv show ?thesis
      by (simp add: delegate_sessions selection_valid_def)
  qed
qed

lemma selection_valid_run: "selection_valid st \<Longrightarrow> selection_valid (run rs st)"
  by (induction rs arbitrary: st) (simp_all add: selection_valid_handle)

lemma selection_valid_init: "selection_valid init_state"
  by (simp add: selection_valid_def init_state_def)

text \<open>What a request leaves of a session that is already stored.\<close>

lemma create_keeps_other:
  "''checkout_session_'' @ take 12 (uuid e 0) \<noteq> sid \<Longrightarrow>
     checkoutSessions (fst (create e body st)) sid = checkoutSessions st sid"
  by (auto simp: create_def Let_def createFulfillmentOptions_def split: if_splits js.splits)

lemma update_keeps_options:
  assumes "checkoutSessions st sid = Some s"
  shows "\<exists>s'. checkoutSessions (fst (update e k body st)) sid = Some s'
           \<and> fulfillment_options s' = fulfillment_options s
           \<and> (status s = Completed \<longrightarrow> s' = s)"
proof (cases "k = sid \<and> status s = Ready_for_payment")
  case True
  obtain s' r where f: "update_fields e body s = (s', r)"
    by (cases "update_fields e body s")
  with True assms update_fields_keeps(1) [OF f] show ?thesis
    by (simp add: update_def)
next
  case False
  with assms show ?thesis
    by (cases "status s")
       (auto simp: update_def split: option.splits prod.splits)
qed

lemma complete_keeps_options:
  assumes "checkoutSessions st sid = Some s"
  shows "\<exists>s'. checkoutSessions (fst (complete_session e k body st)) sid = Some s'
           \<and> fulfillment_options s' = fulfillment_options s
           \<and> (status s = Completed \<longrightarrow> s' = s)"
  using assms
  by (auto simp: complete_session_def Let_def split: option.splits)

lemma cancel_keeps_options:
  assumes "checkoutSessions st sid = Some s"
  shows "\<exists>s'. checkoutSessions (fst (cancel e k st)) sid = Some s'
           \<and> fulfillment_options s' = fulfillment_options s
           \<and> (status s = Completed \<longrightarrow> s' = s)"
  using assms
  by (auto simp: cancel_def Let_def split: option.splits)

lemma handle_keeps_options:
  assumes stored: "checkoutSessions st sid = Some s"
    and other: "drawn_session_id r \<noteq> Some sid"
  shows "\<exists>s'. checkoutSessions (handle r st) sid = Some s'
           \<and> fulfillment_options s' = fulfillment_options s
           \<and> (status s = Completed \<longrightarrow> s' = s)"
proof (cases r)
  case (Create e body)
  with other have "''checkout_session_'' @ take 12 (uuid e 0) \<noteq> sid" by simp
  from create_keeps_other [OF this] stored Create show ?thesis by simp
next
  case (Update e k body)
  with update_keeps_options [OF stored] show ?thesis by simp
next
  case (Retrieve k)
  with stored show ?thesis by (simp add: retrieve_state)
next
  case (Complete e k body)
  with complete_keeps_options [OF stored] show ?thesis by simp
next
  case (Cancel e k)
  with cancel_keeps_options [OF stored] show ?thesis by simp
next
  case (Delegate e body)
  with stored show ?thesis by (simp add: delegate_sessions)
qed

lemma run_keeps_options:
  assumes "checkoutSessions st sid = Some s"
    and "\<forall>r \<in> set rs. drawn_session_id r \<noteq> Some sid"
  shows "\<exists>s'. checkoutSessions (run rs st) sid = Some s'
           \<and> fulfillment_options s' = fulfillment_options s
           \<and> (status s = Completed \<longrightarrow> s' = s)"
  using assms
proof (induction rs arbitrary: st s)
  case Nil
  then show ?case by simp
next
  case (Cons r rs)
  from Cons.prems have other: "drawn_session_id r \<noteq> Some sid"
    and rest: "\<forall>r \<in> set rs. drawn_session_id r \<noteq> Some sid"
    by simp_all
  from handle_keeps_options [OF Cons.prems(1) other] obtain s1 where
    s1: "checkoutSessions (handle r st) sid = Some s1"
    and opts: "fulfillment_options s1 = fulfillment_options s"
    and same: "status s = Completed \<longrightarrow> s1 = s"
    by auto
  from Cons.IH [OF s1 rest] opts same show ?case
    by auto
qed

text \<open>
  C6. In every state the server reaches from the empty maps, the
  \<open>fulfillment_option_id\<close> of every stored session is the id of one of its
  \<open>fulfillment_options\<close>; Create selects the first, standard option; and no request
  other than a Create that draws the same session id again changes the
  \<open>fulfillment_options\<close> of a stored session, however many requests follow.
\<close>

theorem selection_always_valid:
  "(checkoutSessions (run rs init_state) sid = Some s \<longrightarrow>
      fulfillment_option_id s \<in> (\<lambda>opt. JString (opt_id opt)) ` set (fulfillment_options s))
   \<and> (create e body st = (st', Inr (hs, s')) \<longrightarrow>
        (\<exists>opt rest. fulfillment_options s' = opt # rest \<and> title opt = ''Standard''
            \<and> fulfillment_option_id s' = JString (opt_id opt)))
   \<and> (checkoutSessions st0 sid0 = Some s0
        \<and> (\<forall>r \<in> set rs0. drawn_session_id r \<noteq> Some sid0) \<longrightarrow>
        (\<exists>s1. checkoutSessions (run rs0 st0) sid0 = Some s1
            \<and> fulfillment_options s1 = fulfillment_options s0))"
proof (intro conjI impI)
  assume "checkoutSessions (run rs init_state) sid = Some s"
  with selection_valid_run [OF selection_valid_init, of rs]
  show "fulfillment_option_id s \<in> (\<lambda>opt. JString (opt_id opt)) ` set (fulfillment_options s)"
    by (simp add: selection_valid_def option_ids_def)
next
  assume "create e body st = (st', Inr (hs, s'))"
  from create_success(5) [OF this]
  show "\<exists>opt rest. fulfillment_options s' = opt # rest \<and> title opt = ''Standard''
            \<and> fulfillment_option_id s' = JString (opt_id opt)"
    by auto
next
  assume "checkoutSessions st0 sid0 = Some s0
        \<and> (\<forall>r \<in> set rs0. drawn_session_id r \<noteq> Some sid0)"
  then show "\<exists>s1. checkoutSessions (run rs0 st0) sid0 = Some s1
            \<and> fulfillment_options s1 = fulfillment_options s0"
    using run_keeps_options [of st0 sid0 s0 rs0] by auto
qed

section \<open>Orders\<close>

lemma create_orders: "orders (fst (create e body st)) = orders st"
  by (auto simp: create_def Let_def createFulfillmentOptions_def split: if_splits js.splits)

lemma update_orders: "orders (fst (update e k body st)) = orders st"
  by (auto simp: update_def split: option.splits prod.splits)

lemma cancel_orders: "orders (fst (cancel e k st)) = orders st"
  by (auto simp: cancel_def Let_def split: option.splits)

lemma delegate_orders: "orders (fst (delegate_payment e body st)) = orders st"
  by (auto simp: delegate_payment_def Let_def split: if_splits js.splits)

lemma complete_effect:
  "fst (complete_session e k body st) = st
   \<or> (\<exists>s ord s'. checkoutSessions st k = Some s \<and> status s = Ready_for_payment
         \<and> checkout_session_id ord = k
         \<and> status s' = Completed \<and> session_order s' = Some ord
         \<and> complete_session e k body st =
             (st\<lparr>orders := (orders st)(order_id ord \<mapsto> ord),
                 checkoutSessions := (checkoutSessions st)(k \<mapsto> s')\<rparr>, Inr (200, s')))"
  by (auto simp: complete_session_def Let_def split: option.splits)

lemma complete_success:
  "complete_session e k body st = (st1, Inr (hs, s1)) \<Longrightarrow>
     \<exists>ord. checkout_session_id ord = k \<and> status s1 = Completed
         \<and> session_order s1 = Some ord
         \<and> st1 = st\<lparr>orders := (orders st)(order_id ord \<mapsto> ord),
                    checkoutSessions := (checkoutSessions st)(k \<mapsto> s1)\<rparr>"
  by (auto simp: complete_session_def Let_def split: option.splits if_splits)

lemma complete_failure_state:
  "complete_session e k body st = (st', Inl err) \<Longrightarrow> st' = st"
  by (auto simp: complete_session_def Let_def split: option.splits if_splits)

lemma orders_linked_handle:
  assumes inv: "orders_linked st"
    and fresh: "case drawn_session_id r of None \<Rightarrow> True
                | Some k \<Rightarrow> checkoutSessions st k = None"
  shows "orders_linked (handle r st)"
  unfolding orders_linked_def
proof (intro allI impI)
  fix oid ord
  assume stored: "orders (handle r st) oid = Some ord"
  let ?goal = "\<exists>s. checkoutSessions (handle r st) (checkout_session_id ord) = Some s
              \<and> status s = Completed \<and> session_order s = Some ord \<and> order_id ord = oid"
  have old: ?goal if o: "orders st oid = Some ord"
    and keep: "\<And>k s. checkoutSessions st k = Some s \<Longrightarrow> status s = Completed
                 \<Longrightarrow> checkoutSessions (handle r st) k = Some s"
  proof -
    from inv o obtain s where "checkoutSessions st (checkout_session_id ord) = Some s"
      "status s = Completed" "session_order s = Some ord" "order_id ord = oid"
      unfolding orders_linked_def by blast
    with keep [of "checkout_session_id ord" s] show ?thesis by simp
  qed
  show ?goal
  proof (cases r)
    case (Create e body)
    show ?thesis
    proof (rule old)
      from stored Create show "orders st oid = Some ord" by (simp add: create_orders)
    next
      fix k s assume s: "checkoutSessions st k = Some s" "status s = Completed"
      with fresh Create have "''checkout_session_'' @ take 12 (uuid e 0) \<noteq> k" by auto
      from create_keeps_other [OF this] s Create
      show "checkoutSessions (handle r st) k = Some s" by simp
    qed
  next
    case (Update e k0 body)
    show ?thesis
    proof (rule old)
      from stored Update show "orders st oid = Some ord" by (simp add: update_orders)
    next
      fix k s assume s: "checkoutSessions st k = Some s" "status s = Completed"
      with update_keeps_options [OF s(1), of e k0 body] Update
      show "checkoutSessions (handle r st) k = Some s" by auto
    qed
  next
    case (Retrieve k0)
    with stored show ?thesis by (intro old) (simp_all add: retrieve_state)
  next
    case (Cancel e k0)
    show ?thesis
    proof (rule old)
      from stored Cancel show "orders st oid = Some ord" by (simp add: cancel_orders)
    next
      fix k s assume s: "checkoutSessions st k = Some s" "status s = Completed"
      with cancel_keeps_options [OF s(1), of e k0] Cancel
      show "checkoutSessions (handle r st) k = Some s" by auto
    qed
  next
    case (Delegate e body)
    with stored show ?thesis
      by (intro old) (simp_all add: delegate_orders delegate_sessions)
  next
    case (Complete e k0 body)
    from complete_effect [of e k0 body st]
    consider "fst (complete_session e k0 body st) = st"
      | s0 new s' where "checkoutSessions st k0 = Some s0" "status s0 = Ready_for_payment"
          "checkout_session_id new = k0" "status s' = Completed" "session_order s' = Some new"
          "complete_session e k0 body st =
             (st\<lparr>orders := (orders st)(order_id new \<mapsto> new),
                 checkoutSessions := (checkoutSessions st)(k0 \<mapsto> s')\<rparr>, Inr (200, s'))"
      by blast
    then show ?thesis
    proof cases
      case 1
      with stored Complete show ?thesis by (intro old) simp_all
    next
      case 2
      show ?thesis
      proof (cases "oid = order_id new")
        case True
        with stored Complete 2 show ?thesis by simp
      next
        case False
        with stored Complete 2 have o: "orders st oid = Some ord" by simp
        with inv obtain s where s: "checkoutSessions st (checkout_session_id ord) = Some s"
          "status s = Completed" "session_order s = Some ord" "order_id ord = oid"
          unfolding orders_linked_def by blast
        with 2(1,2) have "checkout_session_id ord \<noteq> k0" by auto
        with s Complete 2 show ?thesis by simp
      qed
    qed
  qed
qed

lemma orders_linked_run:
  "orders_linked st \<Longrightarrow> fresh_session_ids rs st \<Longrightarrow> orders_linked (run rs st)"
  by (induction rs arbitrary: st) (simp_all add: orders_linked_handle)

lemma orders_linked_init: "orders_linked init_state"
  by (simp add: orders_linked_def init_state_def)

text \<open>
  C3. When a Complete on a session succeeds, it stores one order for that session, and a
  second Complete on the same session fails with \<^verbatim>\<open>invalid_status\<close> (HTTP 400) and changes
  none of the maps, so it creates no order: immediately, and after any further requests
  that do not draw the session's id again. In every run from the empty server in which
  Create draws fresh session ids, no two stored orders belong to the same session.
\<close>

theorem complete_at_most_once:
  "(complete_session e sid body st = (st1, Inr (hs, s1)) \<longrightarrow>
      (\<exists>ord. orders st1 = (orders st)(order_id ord \<mapsto> ord) \<and> checkout_session_id ord = sid
            \<and> session_order s1 = Some ord)
      \<and> complete_session e2 sid body2 st1
          = (st1, Inl (invalid_status 400 ''complete'' Completed))
      \<and> ((\<forall>r \<in> set rs. drawn_session_id r \<noteq> Some sid) \<longrightarrow>
           complete_session e3 sid body3 (run rs st1)
             = (run rs st1, Inl (invalid_status 400 ''complete'' Completed))))
   \<and> (fresh_session_ids rs0 init_state
        \<and> orders (run rs0 init_state) oid1 = Some ord1
        \<and> orders (run rs0 init_state) oid2 = Some ord2
        \<and> checkout_session_id ord1 = checkout_session_id ord2
       \<longrightarrow> oid1 = oid2)"
proof (intro conjI impI)
  assume first: "complete_session e sid body st = (st1, Inr (hs, s1))"
  from complete_success [OF first]
  obtain ord where eff: "checkout_session_id ord = sid" "status s1 = Completed"
    "session_order s1 = Some ord"
    "st1 = st\<lparr>orders := (orders st)(order_id ord \<mapsto> ord),
              checkoutSessions := (checkoutSessions st)(sid \<mapsto> s1)\<rparr>"
    by auto
  then show "\<exists>ord. orders st1 = (orders st)(order_id ord \<mapsto> ord) \<and> checkout_session_id ord = sid
            \<and> session_order s1 = Some ord"
    by auto
  from eff have stored: "checkoutSessions st1 sid = Some s1" by simp
  have refused: "complete_session e' sid body' st' = (st', Inl (invalid_status 400 ''complete'' Completed))"
    if "checkoutSessions st' sid = Some s1" for e' body' st'
    using that eff(2) by (simp add: complete_session_def)
  from refused [OF stored]
  show "complete_session e2 sid body2 st1 = (st1, Inl (invalid_status 400 ''complete'' Completed))" .
  assume "\<forall>r \<in> set rs. drawn_session_id r \<noteq> Some sid"
  from run_keeps_options [OF stored this] eff(2)
  have "checkoutSessions (run rs st1) sid = Some s1" by auto
  from refused [OF this]
  show "complete_session e3 sid body3 (run rs st1)
             = (run rs st1, Inl (invalid_status 400 ''complete'' Completed))" .
next
  assume a: "fresh_session_ids rs0 init_state
        \<and> orders (run rs0 init_state) oid1 = Some ord1
        \<and> orders (run rs0 init_state) oid2 = Some ord2
        \<and> checkout_session_id ord1 = checkout_session_id ord2"
  then have "orders_linked (run rs0 init_state)"
    by (simp add: orders_linked_run orders_linked_init)
  with a show "oid1 = oid2"
    unfolding orders_linked_def by (metis option.inject)
qed

section \<open>The sample runs\<close>

lemmas run_defs = select_express_run_def later_requests_def two_orders_run_def
  complete_session_def cancel_def delegate_payment_def retrieve_def

text \<open>
  On the sample session: completed once, refused afterwards; and the run with two
  sessions, both completed, has fresh ids and holds the first session's order.
\<close>

theorem complete_at_most_once_witness:
  "\<exists>st1 s1 ord.
      complete_session env_b sid_a payment_body state_a = (st1, Inr (200, s1))
      \<and> complete_session env_d sid_a payment_body st1
          = (st1, Inl (invalid_status 400 ''complete'' Completed))
      \<and> complete_session env_d sid_a payment_body (run later_requests st1)
          = (run later_requests st1, Inl (invalid_status 400 ''complete'' Completed))
      \<and> fresh_session_ids two_orders_run init_state
      \<and> orders (run two_orders_run init_state) ''ord_f47ac10b-58c'' = Some ord
      \<and> checkout_session_id ord = sid_a"
proof -
  obtain st1 s1 where first: "complete_session env_b sid_a payment_body state_a = (st1, Inr (200, s1))"
    by (simp add: run_defs model_defs sample_defs)
  have later: "\<forall>r \<in> set later_requests. drawn_session_id r \<noteq> Some sid_a"
    by (simp add: run_defs sample_defs)
  have fresh: "fresh_session_ids two_orders_run init_state"
    by (simp add: run_defs model_defs sample_defs)
  obtain ord where ord: "orders (run two_orders_run init_state) ''ord_f47ac10b-58c'' = Some ord"
    "checkout_session_id ord = sid_a"
    by (simp add: run_defs model_defs sample_defs)
  note t = complete_at_most_once
    [of env_b sid_a payment_body state_a st1 200 s1 env_d payment_body later_requests env_d payment_body
        two_orders_run "''ord_f47ac10b-58c''" ord "''ord_f47ac10b-58c''" ord]
  show ?thesis
    apply (rule exI [of _ st1], rule exI [of _ s1], rule exI [of _ ord])
    using first later fresh ord t apply simp
    done
qed

text \<open>
  On the sample session: the express option selected by an Update, the standard option
  selected by Create, and the options unchanged by the later requests.
\<close>

theorem selection_always_valid_witness:
  "\<exists>s st' s' s0 s1.
      checkoutSessions (run select_express_run init_state) sid_a = Some s
      \<and> fulfillment_option_id s = JString ''fulfillment_option_9c5b94b1''
      \<and> fulfillment_option_id s \<in> (\<lambda>opt. JString (opt_id opt)) ` set (fulfillment_options s)
      \<and> create env_a create_body init_state = (st', Inr (201, s'))
      \<and> fulfillment_option_id s' = JString ''fulfillment_option_3d594650''
      \<and> checkoutSessions state_a sid_a = Some s0
      \<and> checkoutSessions (run later_requests state_a) sid_a = Some s1
      \<and> fulfillment_options s1 = fulfillment_options s0"
proof -
  obtain s where s: "checkoutSessions (run select_express_run init_state) sid_a = Some s"
    by (simp add: run_defs model_defs sample_defs)
  from s have sel: "fulfillment_option_id s = JString ''fulfillment_option_9c5b94b1''"
    by (auto simp: run_defs model_defs sample_defs)
  obtain st' s' where c: "create env_a create_body init_state = (st', Inr (201, s'))"
    by (simp add: model_defs sample_defs)
  from c have def: "fulfillment_option_id s' = JString ''fulfillment_option_3d594650''"
    by (auto simp: model_defs sample_defs)
  obtain s0 where s0: "checkoutSessions state_a sid_a = Some s0"
    by (simp add: model_defs sample_defs)
  have later: "\<forall>r \<in> set later_requests. drawn_session_id r \<noteq> Some sid_a"
    by (simp add: run_defs sample_defs)
  note t = selection_always_valid
    [of select_express_run sid_a s env_a create_body init_state st' 201 s' state_a sid_a s0
        later_requests]
  from t s0 later obtain s1 where s1: "checkoutSessions (run later_requests state_a) sid_a = Some s1"
    "fulfillment_options s1 = fulfillment_options s0"
    by auto
  show ?thesis
    apply (rule exI [of _ s], rule exI [of _ st'], rule exI [of _ s'], rule exI [of _ s0],
           rule exI [of _ s1])
    using s sel c def s0 s1 t apply simp
    done
qed

end
